theory Spec2Isabelle
  imports Complex_Main "HOL-Library.Word" "HOL-Library.Log_Nat"
begin

unbundle bit_operations_syntax

section \<open>The sensor example \<open>main.c\<close>: data model\<close>

text \<open>
  The program opens an I2C bus device, addresses a sensor, and then polls it forever:
  each sample sends a three-byte command, sleeps, reads a block of bytes and converts the
  leading bytes into a \<open>float\<close>. The embedding below follows the C source function by
  function. Machine integers are words; the C \<open>float\<close> is IEEE-754 binary32 with
  round-to-nearest-even, every operation on \<open>float\<close> operands rounding its result to
  binary32 (as on the targets that evaluate \<open>float\<close> expressions in \<open>float\<close>); the
  operating system is an environment that decides what every system call returns, and
  everything the program does to the outside is appended to a trace.
\<close>

type_synonym u8 = "8 word"
type_synonym u16 = "16 word"
type_synonym u32 = "32 word"

subsection \<open>binary32 arithmetic\<close>

text \<open>
  A finite binary32 value is represented by the rational number it denotes. \<open>f32_round\<close>
  is the rounding every binary32 operation applies to its exact result: the nearest
  multiple of the unit in the last place, ties to the even significand, with the exponent
  held at \<open>-126\<close> for subnormal results. Overflow to infinity (magnitudes of \<open>2^128\<close> and
  beyond) and NaN are not represented: no value of this program comes near them, since every
  operand is below \<open>2^32\<close> and the only operations are a division by \<open>100\<close> and a
  subtraction of \<open>40\<close>.
\<close>

type_synonym f32 = rat

definition pow2 :: "int \<Rightarrow> rat" where
  "pow2 k = 2 powi k"

text \<open>\<open>flog2 x\<close> is the binary exponent of a non-zero \<open>x\<close>: \<open>2^e \<le> |x| < 2^(e+1)\<close>.\<close>

definition flog2 :: "rat \<Rightarrow> int" where
  "flog2 x = (let (p, q) = quotient_of \<bar>x\<bar>;
                  k = bitlen p - bitlen q
              in if pow2 k \<le> \<bar>x\<bar> then k else k - 1)"

definition round_half_even :: "rat \<Rightarrow> int" where
  "round_half_even y = (let f = \<lfloor>y\<rfloor>; d = y - of_int f
     in if d < 1 / 2 then f else if 1 / 2 < d then f + 1
        else if even f then f else f + 1)"

definition f32_round :: "rat \<Rightarrow> f32" where
  "f32_round x = (if x = 0 then 0
     else let e = max (flog2 x) (- 126); u = pow2 (e - 23)
          in of_int (round_half_even (x / u)) * u)"

text \<open>The conversions \<open>(float)raw_pressure\<close> and \<open>(float)raw_temp\<close>.\<close>

definition f32_of_u32 :: "u32 \<Rightarrow> f32" where
  "f32_of_u32 w = f32_round (of_nat (unat w))"

definition f32_of_u16 :: "u16 \<Rightarrow> f32" where
  "f32_of_u16 w = f32_round (of_nat (unat w))"

text \<open>Division and subtraction of \<open>float\<close> operands (the divisor is never zero here).\<close>

definition f32_div :: "f32 \<Rightarrow> f32 \<Rightarrow> f32" where
  "f32_div a b = f32_round (a / b)"

definition f32_sub :: "f32 \<Rightarrow> f32 \<Rightarrow> f32" where
  "f32_sub a b = f32_round (a - b)"

subsection \<open>The conversion steps of \<open>read_pressure\<close> and \<open>read_temperature\<close>\<close>

text \<open>
  \<^verbatim>\<open>uint32_t raw_pressure = (data[0] << 16) | (data[1] << 8) | data[2];\<close>

  The \<open>uint8_t\<close> operands are promoted to the 32-bit \<open>int\<close>, shifted and or-ed there
  (no bit reaches the sign), and the result is stored in a \<open>uint32_t\<close>.
\<close>

definition raw_pressure :: "u8 \<Rightarrow> u8 \<Rightarrow> u8 \<Rightarrow> u32" where
  "raw_pressure d0 d1 d2 =
     push_bit 16 (ucast d0 :: 32 word) OR push_bit 8 (ucast d1 :: 32 word) OR (ucast d2 :: 32 word)"

text \<open>
  \<^verbatim>\<open>uint16_t raw_temp = (data[0] << 8) | data[1];\<close>

  Computed in \<open>int\<close> as well, then truncated to 16 bits by the assignment.
\<close>

definition raw_temp :: "u8 \<Rightarrow> u8 \<Rightarrow> u16" where
  "raw_temp d0 d1 = ucast (push_bit 8 (ucast d0 :: 32 word) OR (ucast d1 :: 32 word))"

text \<open>\<^verbatim>\<open>*pressure = (float)raw_pressure / 100.0f;\<close>\<close>

definition decode_pressure :: "u8 \<Rightarrow> u8 \<Rightarrow> u8 \<Rightarrow> f32" where
  "decode_pressure d0 d1 d2 = f32_div (f32_of_u32 (raw_pressure d0 d1 d2)) 100"

text \<open>\<^verbatim>\<open>*temperature = (float)raw_temp / 100.0f - 40.0f;\<close>\<close>

definition decode_temperature :: "u8 \<Rightarrow> u8 \<Rightarrow> f32" where
  "decode_temperature d0 d1 = f32_sub (f32_div (f32_of_u16 (raw_temp d0 d1)) 100) 40"

text \<open>The big-endian readings of three and of two bytes, as natural numbers.\<close>

definition be24 :: "u8 \<Rightarrow> u8 \<Rightarrow> u8 \<Rightarrow> nat" where
  "be24 b0 b1 b2 = unat b0 * 65536 + unat b1 * 256 + unat b2"

definition be16 :: "u8 \<Rightarrow> u8 \<Rightarrow> nat" where
  "be16 b0 b1 = unat b0 * 256 + unat b1"

subsection \<open>The environment, the trace and the store\<close>

text \<open>
  \<open>var\<close> names the two \<open>float\<close> locals of \<open>main\<close> whose addresses are handed to the
  readers; the store maps each to its value, \<open>None\<close> while it is uninitialised.
\<close>

datatype var = Pressure | Temperature

text \<open>
  Arguments of a \<open>printf\<close> call. \<open>ArgFloat\<close> carries the content of the variable that is
  printed; \<open>ArgStrerror\<close> stands for \<open>strerror(errno)\<close>.
\<close>

datatype arg = ArgInt int | ArgFloat "f32 option" | ArgStr string | ArgStrerror

datatype event =
    Printf string "arg list"
  | Fprintf_stderr string "arg list"
  | Open string int
  | Ioctl int int int
  | Close int
  | Write int "u8 list"
  | Read int nat
  | Usleep nat
  | Sleep nat
  | Store var f32

text \<open>
  What the operating system answers: the result of \<open>open\<close>, of \<open>ioctl\<close>, of the
  \<open>k\<close>-th \<open>write\<close> and of the \<open>k\<close>-th \<open>read\<close>. A \<open>read\<close> either fails (\<open>None\<close>, the
  call returns \<open>-1\<close>) or offers bytes, of which the call takes at most the count it asked for.
\<close>

record env =
  open_ret :: int
  ioctl_ret :: int
  write_ret :: "nat \<Rightarrow> int"
  read_ret :: "nat \<Rightarrow> u8 list option"

record world =
  trace :: "event list"
  nwrite :: nat
  nread :: nat
  mem :: "var \<Rightarrow> f32 option"

definition initial_world :: world where
  "initial_world = \<lparr>trace = [], nwrite = 0, nread = 0, mem = (\<lambda>_. None)\<rparr>"

definition emit :: "event \<Rightarrow> world \<Rightarrow> world" where
  "emit e w = w\<lparr>trace := trace w @ [e]\<rparr>"

definition store :: "var \<Rightarrow> f32 \<Rightarrow> world \<Rightarrow> world" where
  "store p v w = emit (Store p v) (w\<lparr>mem := (mem w)(p := Some v)\<rparr>)"

definition sys_open :: "env \<Rightarrow> string \<Rightarrow> int \<Rightarrow> world \<Rightarrow> int \<times> world" where
  "sys_open E path flags w = (open_ret E, emit (Open path flags) w)"

definition sys_ioctl :: "env \<Rightarrow> int \<Rightarrow> int \<Rightarrow> int \<Rightarrow> world \<Rightarrow> int \<times> world" where
  "sys_ioctl E fd request a w = (ioctl_ret E, emit (Ioctl fd request a) w)"

definition sys_write :: "env \<Rightarrow> int \<Rightarrow> u8 list \<Rightarrow> world \<Rightarrow> int \<times> world" where
  "sys_write E fd buf w =
     (write_ret E (nwrite w), emit (Write fd buf) (w\<lparr>nwrite := Suc (nwrite w)\<rparr>))"

definition sys_read :: "env \<Rightarrow> int \<Rightarrow> nat \<Rightarrow> world \<Rightarrow> (int \<times> u8 list) \<times> world" where
  "sys_read E fd n w =
     (let w' = emit (Read fd n) (w\<lparr>nread := Suc (nread w)\<rparr>)
      in case read_ret E (nread w) of
           None \<Rightarrow> ((- 1, []), w')
         | Some bs \<Rightarrow> ((int (length (take n bs)), take n bs), w'))"

text \<open>Constants of the C library and kernel headers the program includes.\<close>

definition O_RDWR :: int where "O_RDWR = 2"
definition I2C_SLAVE :: int where "I2C_SLAVE = 0x0703"
definition EXIT_SUCCESS :: int where "EXIT_SUCCESS = 0"
definition EXIT_FAILURE :: int where "EXIT_FAILURE = 1"

definition I2C_BUS :: string where "I2C_BUS = ''/dev/i2c-1''"

subsection \<open>\<open>init_i2c\<close>\<close>

definition init_i2c :: "env \<Rightarrow> string \<Rightarrow> int \<Rightarrow> world \<Rightarrow> int \<times> world" where
  "init_i2c E device addr w =
     (let (fd, w1) = sys_open E device O_RDWR w
      in if fd < 0
         then (- 1, emit (Fprintf_stderr ''Error opening I2C device %s: %s\<newline>''
                            [ArgStr device, ArgStrerror]) w1)
         else let (r, w2) = sys_ioctl E fd I2C_SLAVE addr w1
              in if r < 0
                 then (- 1, emit (Close fd)
                              (emit (Fprintf_stderr
                                       ''Error setting I2C slave address 0x%02X: %s\<newline>''
                                       [ArgInt addr, ArgStrerror]) w2))
                 else (fd, w2))"

subsection \<open>\<open>read_pressure\<close> and \<open>read_temperature\<close>\<close>

text \<open>
  Both return the C result (\<open>0\<close> or \<open>-1\<close>) and the new world. The buffer \<open>data\<close> holds
  what the \<open>read\<close> delivered; it is indexed only after the count has been checked.
\<close>

definition read_pressure :: "env \<Rightarrow> int \<Rightarrow> var \<Rightarrow> world \<Rightarrow> int \<times> world" where
  "read_pressure E fd pressure w =
     (let cmd = [0x48, 0xA3, 0x00];
          (n, w1) = sys_write E fd cmd w
      in if n \<noteq> 3
         then (- 1, emit (Fprintf_stderr ''Error sending pressure command: %s\<newline>''
                            [ArgStrerror]) w1)
         else let w2 = emit (Usleep 100000) w1;
                  ((m, data), w3) = sys_read E fd 9 w2
              in if m \<noteq> 9
                 then (- 1, emit (Fprintf_stderr ''Error reading pressure data: %s\<newline>''
                                    [ArgStrerror]) w3)
                 else (0, store pressure
                            (decode_pressure (data ! 0) (data ! 1) (data ! 2)) w3))"

definition read_temperature :: "env \<Rightarrow> int \<Rightarrow> var \<Rightarrow> world \<Rightarrow> int \<times> world" where
  "read_temperature E fd temperature w =
     (let cmd = [0x60, 0x9C, 0x00];
          (n, w1) = sys_write E fd cmd w
      in if n \<noteq> 3
         then (- 1, emit (Fprintf_stderr ''Error sending temperature command: %s\<newline>''
                            [ArgStrerror]) w1)
         else let w2 = emit (Usleep 50000) w1;
                  ((m, data), w3) = sys_read E fd 6 w2
              in if m \<noteq> 6
                 then (- 1, emit (Fprintf_stderr ''Error reading temperature data: %s\<newline>''
                                    [ArgStrerror]) w3)
                 else (0, store temperature
                            (decode_temperature (data ! 0) (data ! 1)) w3))"

subsection \<open>\<open>print_sensor_info\<close>\<close>

text \<open>
  The address constant \<open>ICP10111_I2C_ADDR\<close> that \<open>print_sensor_info\<close> and \<open>main\<close>
  use is defined nowhere in the file; it is a parameter here.
\<close>

definition print_sensor_info :: "int \<Rightarrow> world \<Rightarrow> world" where
  "print_sensor_info ICP10111_I2C_ADDR w =
     (let w1 = emit (Printf ''========================================\<newline>'' []) w;
          w2 = emit (Printf ''  ICP-10111 Barometric Pressure Sensor\<newline>'' []) w1;
          w3 = emit (Printf ''========================================\<newline>'' []) w2;
          w4 = emit (Printf ''I2C Address: 0x%02X\<newline>'' [ArgInt ICP10111_I2C_ADDR]) w3;
          w5 = emit (Printf ''I2C Bus: %s\<newline>'' [ArgStr I2C_BUS]) w4;
          w6 = emit (Printf ''Pressure Range: 300-1250 hPa\<newline>'' []) w5;
          w7 = emit (Printf (''Accuracy: '' @ [CHR 0xC2, CHR 0xB1] @ ''0.4 hPa @ 25''
                               @ [CHR 0xC2, CHR 0xB0] @ ''C\<newline>'') []) w6
      in emit (Printf ''========================================\<newline>\<newline>'' []) w7)"

subsection \<open>\<open>main\<close>\<close>

text \<open>The three formats of a table row.\<close>

definition row_fmt_values :: string where
  "row_fmt_values = ''%6d | %13.2f | %15.2f\<newline>''"

definition row_fmt_temp_error :: string where
  "row_fmt_temp_error = ''%6d | %13.2f | %15s\<newline>''"

definition row_fmt_error :: string where
  "row_fmt_error = ''%6d | %13s | %15s\<newline>''"

text \<open>
  One pass through the body of \<open>while (1)\<close>. \<open>sample_count\<close> is a C \<open>int\<close>; it is a
  32-bit word here and printed through \<open>sint\<close>. (Its increment past \<open>INT_MAX\<close> is
  undefined in C and wraps here; that takes \<open>2^31\<close> samples, one a second.)
\<close>

definition loop_body :: "env \<Rightarrow> int \<Rightarrow> 32 word \<Rightarrow> world \<Rightarrow> 32 word \<times> world" where
  "loop_body E fd sample_count w =
     (let sample_count = sample_count + 1;
          (rp, w1) = read_pressure E fd Pressure w;
          w4 = (if rp = 0
                then let (rt, w2) = read_temperature E fd Temperature w1
                     in if rt = 0
                        then emit (Printf row_fmt_values
                                     [ArgInt (sint sample_count), ArgFloat (mem w2 Pressure),
                                      ArgFloat (mem w2 Temperature)]) w2
                        else emit (Printf row_fmt_temp_error
                                     [ArgInt (sint sample_count), ArgFloat (mem w2 Pressure),
                                      ArgStr ''Error'']) w2
                else emit (Printf row_fmt_error
                             [ArgInt (sint sample_count), ArgStr ''Error'', ArgStr ''Error'']) w1)
      in (sample_count, emit (Sleep 1) w4))"

text \<open>
  How a run ends: the process has exited with a status, or it is still inside the
  measurement loop when the fuel (the number of loop passes observed) is used up.
\<close>

datatype outcome = Exited int world | Running world

text \<open>
  \<^verbatim>\<open>while (1) { ... }  close(fd);  return EXIT_SUCCESS;\<close>

  The loop condition is the constant \<open>1\<close>; the statements after the loop are the branch
  taken when it is false.
\<close>

fun main_loop :: "nat \<Rightarrow> env \<Rightarrow> int \<Rightarrow> 32 word \<Rightarrow> world \<Rightarrow> outcome" where
  "main_loop 0 E fd sample_count w = Running w"
| "main_loop (Suc fuel) E fd sample_count w =
     (if (1 :: int) \<noteq> 0
      then (let (sample_count', w') = loop_body E fd sample_count w
            in main_loop fuel E fd sample_count' w')
      else Exited EXIT_SUCCESS (emit (Close fd) w))"

definition main :: "int \<Rightarrow> env \<Rightarrow> nat \<Rightarrow> outcome" where
  "main ICP10111_I2C_ADDR E fuel =
     (let sample_count = 0;
          w0 = print_sensor_info ICP10111_I2C_ADDR initial_world;
          (fd, w1) = init_i2c E I2C_BUS ICP10111_I2C_ADDR w0
      in if fd < 0
         then Exited EXIT_FAILURE
                (emit (Fprintf_stderr ''Failed to initialize I2C communication\<newline>'' []) w1)
         else let w2 = emit (Printf ''Starting continuous measurement...\<newline>'' []) w1;
                  w3 = emit (Printf ''Press Ctrl+C to stop\<newline>\<newline>'' []) w2;
                  w4 = emit (Printf (''Sample | Pressure (hPa) | Temperature (''
                                       @ [CHR 0xC2, CHR 0xB0] @ ''C)\<newline>'') []) w3;
                  w5 = emit (Printf ''-------|----------------|------------------\<newline>'' []) w4
              in main_loop fuel E fd sample_count w5)"

subsection \<open>Observations on a trace\<close>

text \<open>A table row is a \<open>printf\<close> with one of the three row formats.\<close>

fun is_row :: "event \<Rightarrow> bool" where
  "is_row (Printf fmt args) =
     (fmt = row_fmt_values \<or> fmt = row_fmt_temp_error \<or> fmt = row_fmt_error)"
| "is_row _ = False"

fun is_store :: "event \<Rightarrow> bool" where
  "is_store (Store p v) = True"
| "is_store _ = False"

fun is_close :: "event \<Rightarrow> bool" where
  "is_close (Close fd) = True"
| "is_close _ = False"

definition rows :: "world \<Rightarrow> event list" where
  "rows w = filter is_row (trace w)"

definition stores :: "world \<Rightarrow> event list" where
  "stores w = filter is_store (trace w)"

definition closes :: "world \<Rightarrow> event list" where
  "closes w = filter is_close (trace w)"

text \<open>The world in which an outcome leaves the process.\<close>

fun final_world :: "outcome \<Rightarrow> world" where
  "final_world (Exited status w) = w"
| "final_world (Running w) = w"

fun exit_status :: "outcome \<Rightarrow> int option" where
  "exit_status (Exited status w) = Some status"
| "exit_status (Running w) = None"

subsection \<open>When the two bus transfers of a sample are complete\<close>

text \<open>
  The command \<open>write\<close> returns 3 and the data \<open>read\<close> offers at least the bytes asked for
  (9 for the pressure, 6 for the temperature), in the world in which the reader is entered.
\<close>

definition pressure_io_ok :: "env \<Rightarrow> world \<Rightarrow> bool" where
  "pressure_io_ok E w =
     (write_ret E (nwrite w) = 3 \<and>
      (case read_ret E (nread w) of None \<Rightarrow> False | Some bs \<Rightarrow> 9 \<le> length bs))"

definition temperature_io_ok :: "env \<Rightarrow> world \<Rightarrow> bool" where
  "temperature_io_ok E w =
     (write_ret E (nwrite w) = 3 \<and>
      (case read_ret E (nread w) of None \<Rightarrow> False | Some bs \<Rightarrow> 6 \<le> length bs))"

text \<open>The command writes with which a pressure measurement is started.\<close>

fun is_pressure_cmd :: "event \<Rightarrow> bool" where
  "is_pressure_cmd (Write fd buf) = (buf = [0x48, 0xA3, 0x00])"
| "is_pressure_cmd _ = False"

definition attempts :: "world \<Rightarrow> event list" where
  "attempts w = filter is_pressure_cmd (trace w)"

subsection \<open>Example environments\<close>

text \<open>A bus on which every call succeeds and every read delivers the bytes \<open>bs\<close>.\<close>

definition bus_ok :: "u8 list \<Rightarrow> env" where
  "bus_ok bs = \<lparr>open_ret = 3, ioctl_ret = 0, write_ret = (\<lambda>_. 3), read_ret = (\<lambda>_. Some bs)\<rparr>"

text \<open>A bus whose device node cannot be opened.\<close>

definition bus_absent :: env where
  "bus_absent = \<lparr>open_ret = - 1, ioctl_ret = 0, write_ret = (\<lambda>_. 3), read_ret = (\<lambda>_. None)\<rparr>"

text \<open>A bus that opens, accepts every command and then fails every read.\<close>

definition bus_read_fails :: env where
  "bus_read_fails = \<lparr>open_ret = 3, ioctl_ret = 0, write_ret = (\<lambda>_. 3), read_ret = (\<lambda>_. None)\<rparr>"

text \<open>A bus that opens and then rejects every command.\<close>

definition bus_write_fails :: env where
  "bus_write_fails = \<lparr>open_ret = 3, ioctl_ret = 0, write_ret = (\<lambda>_. - 1), read_ret = (\<lambda>_. None)\<rparr>"

text \<open>A bus on which the reads alternate: the pressure block arrives, the temperature read fails.\<close>

definition bus_temp_fails :: "u8 list \<Rightarrow> env" where
  "bus_temp_fails bs =
     \<lparr>open_ret = 3, ioctl_ret = 0, write_ret = (\<lambda>_. 3),
      read_ret = (\<lambda>k. if even k then Some bs else None)\<rparr>"

text \<open>A world in the middle of a run: earlier samples have left values in both variables.\<close>

definition used_world :: world where
  "used_world = \<lparr>trace = [Sleep 1], nwrite = 4, nread = 3,
                   mem = (\<lambda>_. None)(Pressure := Some 1013, Temperature := Some 21)\<rparr>"

section \<open>Arithmetic facts\<close>

lemma pow2_pos: "0 < pow2 k"
  by (simp add: pow2_def)

lemma pow2_add: "pow2 (a + b) = pow2 a * pow2 b"
  by (simp add: pow2_def power_int_add)

lemma pow2_diff: "pow2 (a - b) = pow2 a / pow2 b"
  by (simp add: pow2_def power_int_diff)

lemma pow2_nat: "0 \<le> k \<Longrightarrow> pow2 k = 2 ^ nat k"
  by (simp add: pow2_def power_int_def)

lemma pow2_mono: "a \<le> b \<Longrightarrow> pow2 a \<le> pow2 b"
  by (simp add: pow2_def power_int_increasing)

lemma pow2_less_iff: "pow2 a < pow2 b \<longleftrightarrow> a < b"
proof
  assume "pow2 a < pow2 b"
  then have "\<not> pow2 b \<le> pow2 a" by simp
  then have "\<not> b \<le> a" using pow2_mono by blast
  then show "a < b" by simp
next
  assume "a < b"
  then show "pow2 a < pow2 b" by (simp add: pow2_def power_int_strict_increasing)
qed

text \<open>The shifts and ors of the conversion add up: the byte fields do not overlap.\<close>

lemma unat_u8: "unat (d :: u8) < 256"
  using unsigned_less [of d, where 'a = nat] by simp

lemma unat_ucast_u8_u32: "unat (ucast (d :: u8) :: u32) = unat d"
  using unat_u8 [of d] by (simp add: unsigned_ucast_eq take_bit_eq_mod)

lemma raw_pressure_plus:
  "raw_pressure d0 d1 d2 =
     push_bit 16 (ucast d0 :: 32 word) + push_bit 8 (ucast d1 :: 32 word) + (ucast d2 :: 32 word)"
proof -
  have low: "push_bit 8 (ucast d1 :: 32 word) + ucast d2 = push_bit 8 (ucast d1 :: 32 word) OR ucast d2"
    by (rule disjunctive_add) (auto simp add: bit_simps dest: bit_imp_le_length)
  have high: "push_bit 16 (ucast d0 :: 32 word) + (push_bit 8 (ucast d1 :: 32 word) OR ucast d2)
      = push_bit 16 (ucast d0 :: 32 word) OR (push_bit 8 (ucast d1 :: 32 word) OR ucast d2)"
    by (rule disjunctive_add) (auto simp add: bit_simps dest: bit_imp_le_length)
  show ?thesis
    unfolding raw_pressure_def using low high by (simp add: add.assoc)
qed

lemma unat_raw_pressure:
  "unat (raw_pressure d0 d1 d2) = unat d0 * 65536 + unat d1 * 256 + unat d2"
  using unat_u8 [of d0] unat_u8 [of d1] unat_u8 [of d2]
  by (simp add: raw_pressure_plus unat_word_ariths push_bit_eq_mult unat_ucast_u8_u32)

lemma raw_temp_plus:
  "push_bit 8 (ucast (d0 :: u8) :: 32 word) OR (ucast (d1 :: u8) :: 32 word)
     = push_bit 8 (ucast d0 :: 32 word) + (ucast d1 :: 32 word)"
  by (rule disjunctive_add [symmetric]) (auto simp add: bit_simps dest: bit_imp_le_length)

lemma unat_temp_int:
  "unat (push_bit 8 (ucast (d0 :: u8) :: 32 word) OR (ucast (d1 :: u8) :: 32 word))
     = unat d0 * 256 + unat d1"
  using unat_u8 [of d0] unat_u8 [of d1]
  by (simp only: raw_temp_plus) (simp add: unat_word_ariths push_bit_eq_mult unat_ucast_u8_u32)

lemma unat_raw_temp: "unat (raw_temp d0 d1) = unat d0 * 256 + unat d1"
  using unat_u8 [of d0] unat_u8 [of d1]
  by (simp add: raw_temp_def unsigned_ucast_eq take_bit_eq_mod unat_temp_int)

text \<open>The binary exponent is the right one.\<close>

lemma flog2_bounds:
  assumes "x \<noteq> 0"
  shows "pow2 (flog2 x) \<le> \<bar>x\<bar>" and "\<bar>x\<bar> < pow2 (flog2 x + 1)"
proof -
  obtain p q where pq: "quotient_of \<bar>x\<bar> = (p, q)" by (cases "quotient_of \<bar>x\<bar>")
  have q: "0 < q" using pq by (rule quotient_of_denom_pos)
  have x: "\<bar>x\<bar> = of_int p / of_int q" using pq by (rule quotient_of_div)
  have "0 < \<bar>x\<bar>" using assms by simp
  then have p: "0 < p" using q x by (simp add: zero_less_divide_iff)
  define k where "k = bitlen p - bitlen q"
  have bp: "1 \<le> bitlen p" "1 \<le> bitlen q" using p q by (simp_all add: bitlen_alt_def)
  have hi: "(of_int n :: rat) < pow2 (bitlen n)" if "0 < n" for n
  proof -
    have "n < 2 ^ nat (bitlen n)" using bitlen_bounds [OF that] by simp
    then have "(of_int n :: rat) < of_int (2 ^ nat (bitlen n))" by (simp only: of_int_less_iff)
    moreover have "0 \<le> bitlen n" using that by (simp add: bitlen_alt_def)
    ultimately show ?thesis by (simp add: pow2_nat)
  qed
  have lo: "pow2 (bitlen n - 1) \<le> (of_int n :: rat)" if "0 < n" for n
  proof -
    have "2 ^ nat (bitlen n - 1) \<le> n" using bitlen_bounds [OF that] by simp
    then have "(of_int (2 ^ nat (bitlen n - 1)) :: rat) \<le> of_int n" by (simp only: of_int_le_iff)
    moreover have "1 \<le> bitlen n" using that by (simp add: bitlen_alt_def)
    ultimately show ?thesis by (simp add: pow2_nat)
  qed
  have qr: "(0::rat) < of_int q" using q by simp
  have upper: "\<bar>x\<bar> < pow2 (k + 1)"
  proof -
    have "of_int p / of_int q < pow2 (bitlen p) / (of_int q :: rat)"
      using hi [OF p] qr by (simp add: divide_strict_right_mono)
    also have "\<dots> \<le> pow2 (bitlen p) / pow2 (bitlen q - 1)"
      using lo [OF q] pow2_pos [of "bitlen q - 1"] pow2_pos [of "bitlen p"]
      by (simp add: frac_le)
    also have "\<dots> = pow2 (k + 1)"
      by (simp add: k_def pow2_diff [symmetric] algebra_simps)
    finally show ?thesis using x by simp
  qed
  have lower: "pow2 (k - 1) \<le> \<bar>x\<bar>"
  proof -
    have "pow2 (k - 1) = pow2 (bitlen p - 1) / pow2 (bitlen q)"
      by (simp add: k_def pow2_diff [symmetric] algebra_simps)
    also have "\<dots> \<le> of_int p / pow2 (bitlen q)"
      using lo [OF p] pow2_pos [of "bitlen q"] by (simp add: divide_right_mono)
    also have "\<dots> \<le> of_int p / of_int q"
      using hi [OF q] qr p by (simp add: frac_le)
    finally show ?thesis using x by simp
  qed
  have fl: "flog2 x = (if pow2 k \<le> \<bar>x\<bar> then k else k - 1)"
    by (simp add: flog2_def pq k_def Let_def)
  show "pow2 (flog2 x) \<le> \<bar>x\<bar>" using lower by (simp add: fl)
  show "\<bar>x\<bar> < pow2 (flog2 x + 1)" using upper by (auto simp add: fl)
qed

lemma flog2_less:
  assumes "x \<noteq> 0" and "\<bar>x\<bar> < pow2 k"
  shows "flog2 x < k"
proof -
  have "pow2 (flog2 x) < pow2 k" using flog2_bounds(1) [OF assms(1)] assms(2) by simp
  then show ?thesis by (simp only: pow2_less_iff)
qed

lemma round_half_even_of_int: "round_half_even (of_int n) = n"
  by (simp add: round_half_even_def)

lemma round_half_even_error: "\<bar>of_int (round_half_even y) - y\<bar> \<le> 1 / 2"
proof -
  have "of_int \<lfloor>y\<rfloor> \<le> y" "y < of_int \<lfloor>y\<rfloor> + 1" by linarith+
  then show ?thesis
    by (auto simp add: round_half_even_def Let_def)
qed

lemma round_half_even_nonneg: "0 \<le> y \<Longrightarrow> 0 \<le> round_half_even y"
  by (auto simp add: round_half_even_def Let_def)

lemma f32_round_unfold:
  "x \<noteq> 0 \<Longrightarrow> f32_round x =
     of_int (round_half_even (x / pow2 (max (flog2 x) (- 126) - 23)))
       * pow2 (max (flog2 x) (- 126) - 23)"
  by (simp add: f32_round_def Let_def)

lemma f32_round_nonneg: "0 \<le> x \<Longrightarrow> 0 \<le> f32_round x"
proof (cases "x = 0")
  case True
  then show ?thesis by (simp add: f32_round_def)
next
  case False
  assume "0 \<le> x"
  then have "0 \<le> round_half_even (x / pow2 (max (flog2 x) (- 126) - 23))"
    using pow2_pos [of "max (flog2 x) (- 126) - 23"] by (intro round_half_even_nonneg) simp
  then show ?thesis
    using False pow2_pos [of "max (flog2 x) (- 126) - 23"]
    by (simp add: f32_round_unfold)
qed

text \<open>An integer below \<open>2^24\<close> is a binary32 value: converting it is exact.\<close>

lemma f32_round_int_exact:
  assumes "\<bar>n\<bar> < 2 ^ 24"
  shows "f32_round (of_int n) = of_int n"
proof (cases "n = 0")
  case True
  then show ?thesis by (simp add: f32_round_def)
next
  case False
  define x :: rat where "x = of_int n"
  define e where "e = max (flog2 x) (- 126)"
  define m where "m = nat (23 - e)"
  have x0: "x \<noteq> 0" using False by (simp add: x_def)
  have "\<bar>x\<bar> < of_int (2 ^ 24)" unfolding x_def using assms
    by (simp only: of_int_abs [symmetric] of_int_less_iff)
  then have "\<bar>x\<bar> < pow2 24" by (simp add: pow2_def)
  then have "flog2 x < 24" using x0 by (rule flog2_less [rotated])
  then have e: "e \<le> 23" by (simp add: e_def)
  have u: "pow2 (e - 23) = 1 / 2 ^ m"
    using e by (simp add: pow2_def power_int_def m_def inverse_eq_divide
                  power_inverse [symmetric] field_simps)
  have "x / pow2 (e - 23) = of_int (n * 2 ^ m)" by (simp add: u x_def)
  then have r: "round_half_even (x / pow2 (e - 23)) = n * 2 ^ m"
    by (simp only: round_half_even_of_int)
  have "f32_round x = of_int (round_half_even (x / pow2 (e - 23))) * pow2 (e - 23)"
    unfolding e_def using x0 by (rule f32_round_unfold)
  also have "\<dots> = of_int (n * 2 ^ m) * pow2 (e - 23)"
    by (simp only: r)
  also have "\<dots> = x" by (simp add: u x_def)
  finally show ?thesis by (simp add: x_def)
qed

lemma f32_round_nat_exact: "n < 2 ^ 24 \<Longrightarrow> f32_round (of_nat n) = of_nat n"
  using f32_round_int_exact [of "int n"] by simp

text \<open>Rounding moves a value below \<open>2^(E+1)\<close> by at most half a unit in the last place.\<close>

lemma f32_round_error:
  assumes "\<bar>x\<bar> < pow2 (E + 1)" and "- 126 \<le> E"
  shows "\<bar>f32_round x - x\<bar> \<le> pow2 (E - 24)"
proof (cases "x = 0")
  case True
  then show ?thesis using pow2_pos [of "E - 24"] by (simp add: f32_round_def)
next
  case False
  define e where "e = max (flog2 x) (- 126)"
  define u where "u = pow2 (e - 23)"
  have "flog2 x < E + 1" using False assms(1) by (rule flog2_less)
  then have "e \<le> E" using assms(2) by (simp add: e_def)
  then have "u \<le> pow2 (E - 23)" unfolding u_def by (intro pow2_mono) simp
  moreover have "pow2 (E - 23) = 2 * pow2 (E - 24)"
    using pow2_add [of 1 "E - 24"] by (simp add: pow2_def)
  ultimately have u_le: "u / 2 \<le> pow2 (E - 24)" by simp
  have u0: "0 < u" by (simp add: u_def pow2_pos)
  have "f32_round x - x = (of_int (round_half_even (x / u)) - x / u) * u"
    using False u0
    by (simp add: f32_round_unfold e_def [symmetric] u_def [symmetric] algebra_simps)
  then have "\<bar>f32_round x - x\<bar> = \<bar>of_int (round_half_even (x / u)) - x / u\<bar> * u"
    using u0 by (simp add: abs_mult)
  also have "\<dots> \<le> (1 / 2) * u"
    using round_half_even_error [of "x / u"] u0 by (intro mult_right_mono) simp_all
  finally show ?thesis using u_le by simp
qed

text \<open>The conversion steps in arithmetic terms.\<close>

lemma be24_less: "be24 b0 b1 b2 < 2 ^ 24"
  using unat_u8 [of b0] unat_u8 [of b1] unat_u8 [of b2] by (simp add: be24_def)

lemma be16_less: "be16 b0 b1 < 2 ^ 16"
  using unat_u8 [of b0] unat_u8 [of b1] by (simp add: be16_def)

lemma f32_of_raw_pressure: "f32_of_u32 (raw_pressure b0 b1 b2) = of_nat (be24 b0 b1 b2)"
  using be24_less [of b0 b1 b2]
  by (simp only: f32_of_u32_def unat_raw_pressure be24_def [symmetric] f32_round_nat_exact)

lemma f32_of_raw_temp: "f32_of_u16 (raw_temp b0 b1) = of_nat (be16 b0 b1)"
proof -
  have "be16 b0 b1 < 2 ^ 24" using be16_less [of b0 b1] by simp
  then show ?thesis
    by (simp only: f32_of_u16_def unat_raw_temp be16_def [symmetric] f32_round_nat_exact)
qed

lemma decode_pressure_eq: "decode_pressure b0 b1 b2 = f32_round (of_nat (be24 b0 b1 b2) / 100)"
  by (simp only: decode_pressure_def f32_div_def f32_of_raw_pressure)

lemma decode_temperature_eq:
  "decode_temperature b0 b1 = f32_round (f32_round (of_nat (be16 b0 b1) / 100) - 40)"
  by (simp only: decode_temperature_def f32_div_def f32_sub_def f32_of_raw_temp)

lemma decode_pressure_error:
  "\<bar>decode_pressure b0 b1 b2 - of_nat (be24 b0 b1 b2) / 100\<bar> \<le> 1 / 128"
proof -
  have "(of_nat (be24 b0 b1 b2) :: rat) < of_nat (2 ^ 24)"
    using be24_less [of b0 b1 b2] by (simp only: of_nat_less_iff)
  then have "\<bar>of_nat (be24 b0 b1 b2) / 100 :: rat\<bar> < pow2 (17 + 1)"
    by (simp add: pow2_def)
  then have "\<bar>f32_round (of_nat (be24 b0 b1 b2) / 100) - of_nat (be24 b0 b1 b2) / 100\<bar>
      \<le> pow2 (17 - 24)"
    by (rule f32_round_error) simp
  then show ?thesis by (simp add: decode_pressure_eq pow2_def)
qed

lemma decode_temperature_error:
  "\<bar>decode_temperature b0 b1 - (of_nat (be16 b0 b1) / 100 - 40)\<bar> \<le> 1 / 16384"
proof -
  define q :: rat where "q = of_nat (be16 b0 b1) / 100"
  define r where "r = f32_round q"
  have "(of_nat (be16 b0 b1) :: rat) < of_nat (2 ^ 16)"
    using be16_less [of b0 b1] by (simp only: of_nat_less_iff)
  then have q: "0 \<le> q" "q < 656" by (simp_all add: q_def)
  then have "\<bar>q\<bar> < pow2 (9 + 1)" by (simp add: pow2_def)
  then have "\<bar>f32_round q - q\<bar> \<le> pow2 (9 - 24)" by (rule f32_round_error) simp
  then have e1: "\<bar>r - q\<bar> \<le> 1 / 32768" by (simp add: r_def pow2_def)
  then have "\<bar>r - 40\<bar> < pow2 (9 + 1)" using q by (simp add: pow2_def abs_if split: if_splits)
  then have "\<bar>f32_round (r - 40) - (r - 40)\<bar> \<le> pow2 (9 - 24)" by (rule f32_round_error) simp
  then have e2: "\<bar>f32_round (r - 40) - (r - 40)\<bar> \<le> 1 / 32768" by (simp add: pow2_def)
  have "\<bar>f32_round (r - 40) - (q - 40)\<bar> \<le> 1 / 16384"
    using e1 e2 by linarith
  then show ?thesis
    by (simp only: decode_temperature_eq r_def q_def)
qed

text \<open>Roundings of the quotients that the boundary inputs produce.\<close>

lemma f32_round_0: "f32_round 0 = 0"
  by (simp add: f32_round_def)

lemma f32_round_values:
  "f32_round (16777215 / 100) = 5368709 / 32"
  "f32_round (3355443 / 20) = 5368709 / 32"
  "f32_round (1 / 100) = 5368709 / 536870912"
  "f32_round 1 = 1" "f32_round 100 = 100" "f32_round 60 = 60" "f32_round (- 40) = - 40"
  by code_simp+

lemma round_half_even_bound:
  assumes "\<bar>y\<bar> < of_int N"
  shows "\<bar>round_half_even y\<bar> \<le> N"
proof -
  have "y < of_int N" "- of_int N < y" using assms by linarith+
  then have "\<lfloor>y\<rfloor> < N" "- N \<le> \<lfloor>y\<rfloor>" by linarith+
  moreover have "\<lfloor>y\<rfloor> \<le> round_half_even y" "round_half_even y \<le> \<lfloor>y\<rfloor> + 1"
    by (simp_all add: round_half_even_def Let_def)
  ultimately show ?thesis by linarith
qed

text \<open>
  The rounded value lies on the binary32 grid: an integer significand of at most 24 bits
  times a power of two whose exponent is not below that of the subnormals.
\<close>

lemma f32_round_representable:
  "\<exists>m e. f32_round x = of_int m * pow2 (e - 23) \<and> \<bar>m\<bar> \<le> 2 ^ 24 \<and> - 126 \<le> e
      \<and> (x \<noteq> 0 \<longrightarrow> e = max (flog2 x) (- 126))"
proof (cases "x = 0")
  case True
  have "f32_round x = of_int 0 * pow2 (- 126 - 23)" using True by (simp add: f32_round_0)
  then show ?thesis using True by (intro exI [of _ 0] exI [of _ "- 126"]) simp
next
  case False
  define e where "e = max (flog2 x) (- 126)"
  define u where "u = pow2 (e - 23)"
  have u0: "0 < u" by (simp add: u_def pow2_pos)
  have "\<bar>x\<bar> < pow2 (flog2 x + 1)" using False by (rule flog2_bounds(2))
  also have "\<dots> \<le> pow2 (e + 1)" by (intro pow2_mono) (simp add: e_def)
  also have "\<dots> = pow2 24 * u" by (simp add: u_def pow2_add [symmetric] add.commute)
  finally have "\<bar>x\<bar> / u < pow2 24" using u0 by (simp add: pos_divide_less_eq)
  then have "\<bar>x / u\<bar> < of_int (2 ^ 24)" using u0 by (simp add: pow2_def)
  then have "\<bar>round_half_even (x / u)\<bar> \<le> 2 ^ 24" by (rule round_half_even_bound)
  moreover have "f32_round x = of_int (round_half_even (x / u)) * pow2 (e - 23)"
    using False by (simp add: f32_round_unfold e_def u_def)
  moreover have "- 126 \<le> e" by (simp add: e_def)
  ultimately show ?thesis using e_def by blast
qed

section \<open>The readers, path by path\<close>

lemma trace_emit: "trace (emit e w) = trace w @ [e]"
  by (simp add: emit_def)

lemma mem_emit: "mem (emit e w) = mem w"
  by (simp add: emit_def)

lemma nwrite_emit: "nwrite (emit e w) = nwrite w"
  by (simp add: emit_def)

lemma nread_emit: "nread (emit e w) = nread w"
  by (simp add: emit_def)

lemmas emit_simps = trace_emit mem_emit nwrite_emit nread_emit

lemma rows_emit: "rows (emit e w) = rows w @ (if is_row e then [e] else [])"
  by (simp add: rows_def emit_def)

lemma stores_emit: "stores (emit e w) = stores w @ (if is_store e then [e] else [])"
  by (simp add: stores_def emit_def)

lemma closes_emit: "closes (emit e w) = closes w @ (if is_close e then [e] else [])"
  by (simp add: closes_def emit_def)

lemma attempts_emit: "attempts (emit e w) = attempts w @ (if is_pressure_cmd e then [e] else [])"
  by (simp add: attempts_def emit_def)

lemma obs_nwrite_update:
  "rows (w\<lparr>nwrite := k\<rparr>) = rows w" "stores (w\<lparr>nwrite := k\<rparr>) = stores w"
  "closes (w\<lparr>nwrite := k\<rparr>) = closes w" "attempts (w\<lparr>nwrite := k\<rparr>) = attempts w"
  by (simp_all add: rows_def stores_def closes_def attempts_def)

lemma obs_nread_update:
  "rows (w\<lparr>nread := k\<rparr>) = rows w" "stores (w\<lparr>nread := k\<rparr>) = stores w"
  "closes (w\<lparr>nread := k\<rparr>) = closes w" "attempts (w\<lparr>nread := k\<rparr>) = attempts w"
  by (simp_all add: rows_def stores_def closes_def attempts_def)

lemma obs_mem_update:
  "rows (w\<lparr>mem := m\<rparr>) = rows w" "stores (w\<lparr>mem := m\<rparr>) = stores w"
  "closes (w\<lparr>mem := m\<rparr>) = closes w" "attempts (w\<lparr>mem := m\<rparr>) = attempts w"
  by (simp_all add: rows_def stores_def closes_def attempts_def)

lemmas obs_simps = rows_emit stores_emit closes_emit attempts_emit
  obs_nwrite_update obs_nread_update obs_mem_update emit_simps

text \<open>read_pressure, path by path\<close>

lemma read_pressure_write_short:
  assumes "write_ret E (nwrite w) \<noteq> 3"
  shows "read_pressure E fd p w =
     (- 1, emit (Fprintf_stderr ''Error sending pressure command: %s\<newline>'' [ArgStrerror])
             (emit (Write fd [0x48, 0xA3, 0x00]) (w\<lparr>nwrite := Suc (nwrite w)\<rparr>)))"
  using assms by (simp add: read_pressure_def sys_write_def)

lemma read_pressure_read_short:
  assumes "write_ret E (nwrite w) = 3"
    and "case read_ret E (nread w) of None \<Rightarrow> True | Some bs \<Rightarrow> length bs < 9"
  shows "read_pressure E fd p w =
     (- 1, emit (Fprintf_stderr ''Error reading pressure data: %s\<newline>'' [ArgStrerror])
             (emit (Read fd 9)
                ((emit (Usleep 100000)
                   (emit (Write fd [0x48, 0xA3, 0x00]) (w\<lparr>nwrite := Suc (nwrite w)\<rparr>)))
                 \<lparr>nread := Suc (nread w)\<rparr>)))"
  using assms
  by (auto simp add: read_pressure_def sys_write_def sys_read_def emit_simps Let_def
           split: option.splits)

lemma read_pressure_complete:
  assumes "write_ret E (nwrite w) = 3" and "read_ret E (nread w) = Some bs" and "9 \<le> length bs"
  shows "read_pressure E fd p w =
     (0, store p (decode_pressure (bs ! 0) (bs ! 1) (bs ! 2))
           (emit (Read fd 9)
              ((emit (Usleep 100000)
                 (emit (Write fd [0x48, 0xA3, 0x00]) (w\<lparr>nwrite := Suc (nwrite w)\<rparr>)))
               \<lparr>nread := Suc (nread w)\<rparr>)))"
  using assms
  by (simp add: read_pressure_def sys_write_def sys_read_def emit_simps Let_def)

lemma read_temperature_write_short:
  assumes "write_ret E (nwrite w) \<noteq> 3"
  shows "read_temperature E fd p w =
     (- 1, emit (Fprintf_stderr ''Error sending temperature command: %s\<newline>'' [ArgStrerror])
             (emit (Write fd [0x60, 0x9C, 0x00]) (w\<lparr>nwrite := Suc (nwrite w)\<rparr>)))"
  using assms by (simp add: read_temperature_def sys_write_def)

lemma read_temperature_read_short:
  assumes "write_ret E (nwrite w) = 3"
    and "case read_ret E (nread w) of None \<Rightarrow> True | Some bs \<Rightarrow> length bs < 6"
  shows "read_temperature E fd p w =
     (- 1, emit (Fprintf_stderr ''Error reading temperature data: %s\<newline>'' [ArgStrerror])
             (emit (Read fd 6)
                ((emit (Usleep 50000)
                   (emit (Write fd [0x60, 0x9C, 0x00]) (w\<lparr>nwrite := Suc (nwrite w)\<rparr>)))
                 \<lparr>nread := Suc (nread w)\<rparr>)))"
  using assms
  by (auto simp add: read_temperature_def sys_write_def sys_read_def emit_simps Let_def
           split: option.splits)

lemma read_temperature_complete:
  assumes "write_ret E (nwrite w) = 3" and "read_ret E (nread w) = Some bs" and "6 \<le> length bs"
  shows "read_temperature E fd p w =
     (0, store p (decode_temperature (bs ! 0) (bs ! 1))
           (emit (Read fd 6)
              ((emit (Usleep 50000)
                 (emit (Write fd [0x60, 0x9C, 0x00]) (w\<lparr>nwrite := Suc (nwrite w)\<rparr>)))
               \<lparr>nread := Suc (nread w)\<rparr>)))"
  using assms
  by (simp add: read_temperature_def sys_write_def sys_read_def emit_simps Let_def)


lemma pressure_io_cases:
  obtains (write_short) "write_ret E (nwrite w) \<noteq> 3" "\<not> pressure_io_ok E w"
  | (read_short) "write_ret E (nwrite w) = 3"
      "case read_ret E (nread w) of None \<Rightarrow> True | Some bs \<Rightarrow> length bs < 9"
      "\<not> pressure_io_ok E w"
  | (complete) bs where "write_ret E (nwrite w) = 3" "read_ret E (nread w) = Some bs"
      "9 \<le> length bs" "pressure_io_ok E w"
proof (cases "pressure_io_ok E w")
  case True
  then obtain bs where "write_ret E (nwrite w) = 3" "read_ret E (nread w) = Some bs"
      "9 \<le> length bs"
    by (auto simp add: pressure_io_ok_def split: option.splits)
  then show thesis using True by (rule complete)
next
  case False
  show thesis
  proof (cases "write_ret E (nwrite w) = 3")
    case True
    with False have "case read_ret E (nread w) of None \<Rightarrow> True | Some bs \<Rightarrow> length bs < 9"
      by (auto simp add: pressure_io_ok_def split: option.splits)
    with True show thesis using False by (rule read_short)
  next
    case ne: False
    then show thesis using False by (rule write_short)
  qed
qed

lemma temperature_io_cases:
  obtains (write_short) "write_ret E (nwrite w) \<noteq> 3" "\<not> temperature_io_ok E w"
  | (read_short) "write_ret E (nwrite w) = 3"
      "case read_ret E (nread w) of None \<Rightarrow> True | Some bs \<Rightarrow> length bs < 6"
      "\<not> temperature_io_ok E w"
  | (complete) bs where "write_ret E (nwrite w) = 3" "read_ret E (nread w) = Some bs"
      "6 \<le> length bs" "temperature_io_ok E w"
proof (cases "temperature_io_ok E w")
  case True
  then obtain bs where "write_ret E (nwrite w) = 3" "read_ret E (nread w) = Some bs"
      "6 \<le> length bs"
    by (auto simp add: temperature_io_ok_def split: option.splits)
  then show thesis using True by (rule complete)
next
  case False
  show thesis
  proof (cases "write_ret E (nwrite w) = 3")
    case True
    with False have "case read_ret E (nread w) of None \<Rightarrow> True | Some bs \<Rightarrow> length bs < 6"
      by (auto simp add: temperature_io_ok_def split: option.splits)
    with True show thesis using False by (rule read_short)
  next
    case ne: False
    then show thesis using False by (rule write_short)
  qed
qed

lemma read_pressure_fails:
  assumes "\<not> pressure_io_ok E w"
  shows "fst (read_pressure E fd p w) = - 1"
    and "mem (snd (read_pressure E fd p w)) = mem w"
    and "stores (snd (read_pressure E fd p w)) = stores w"
    and "rows (snd (read_pressure E fd p w)) = rows w"
    and "closes (snd (read_pressure E fd p w)) = closes w"
    and "attempts (snd (read_pressure E fd p w)) = attempts w @ [Write fd [0x48, 0xA3, 0x00]]"
  using assms
  by (cases E w rule: pressure_io_cases;
      simp add: read_pressure_write_short read_pressure_read_short obs_simps)+

lemma read_pressure_succeeds:
  assumes "pressure_io_ok E w" and "read_ret E (nread w) = Some bs"
  shows "fst (read_pressure E fd p w) = 0"
    and "mem (snd (read_pressure E fd p w)) =
           (mem w)(p := Some (decode_pressure (bs ! 0) (bs ! 1) (bs ! 2)))"
    and "stores (snd (read_pressure E fd p w)) =
           stores w @ [Store p (decode_pressure (bs ! 0) (bs ! 1) (bs ! 2))]"
    and "rows (snd (read_pressure E fd p w)) = rows w"
    and "closes (snd (read_pressure E fd p w)) = closes w"
    and "attempts (snd (read_pressure E fd p w)) = attempts w @ [Write fd [0x48, 0xA3, 0x00]]"
  using assms
  by (cases E w rule: pressure_io_cases;
      simp add: read_pressure_complete store_def obs_simps)+

lemma read_temperature_fails:
  assumes "\<not> temperature_io_ok E w"
  shows "fst (read_temperature E fd p w) = - 1"
    and "mem (snd (read_temperature E fd p w)) = mem w"
    and "stores (snd (read_temperature E fd p w)) = stores w"
    and "rows (snd (read_temperature E fd p w)) = rows w"
    and "closes (snd (read_temperature E fd p w)) = closes w"
    and "attempts (snd (read_temperature E fd p w)) = attempts w"
  using assms
  by (cases E w rule: temperature_io_cases;
      simp add: read_temperature_write_short read_temperature_read_short obs_simps)+

lemma read_temperature_succeeds:
  assumes "temperature_io_ok E w" and "read_ret E (nread w) = Some bs"
  shows "fst (read_temperature E fd p w) = 0"
    and "mem (snd (read_temperature E fd p w)) =
           (mem w)(p := Some (decode_temperature (bs ! 0) (bs ! 1)))"
    and "stores (snd (read_temperature E fd p w)) =
           stores w @ [Store p (decode_temperature (bs ! 0) (bs ! 1))]"
    and "rows (snd (read_temperature E fd p w)) = rows w"
    and "closes (snd (read_temperature E fd p w)) = closes w"
    and "attempts (snd (read_temperature E fd p w)) = attempts w"
  using assms
  by (cases E w rule: temperature_io_cases;
      simp add: read_temperature_complete store_def obs_simps)+

section \<open>The measurement loop and \<open>main\<close>\<close>

lemma fst_loop_body: "fst (loop_body E fd sc w) = sc + 1"
  by (simp add: loop_body_def Let_def split_beta)

lemma is_row_fmts:
  "is_row (Printf row_fmt_values args)" "is_row (Printf row_fmt_temp_error args)"
  "is_row (Printf row_fmt_error args)"
  by simp_all

lemma loop_body_pressure_fails:
  assumes "\<not> pressure_io_ok E w"
  shows "rows (snd (loop_body E fd sc w)) =
           rows w @ [Printf row_fmt_error [ArgInt (sint (sc + 1)), ArgStr ''Error'', ArgStr ''Error'']]"
  using read_pressure_fails(1,4) [OF assms, of fd Pressure]
  by (simp add: loop_body_def Let_def split_beta obs_simps)

lemma loop_body_temperature_fails:
  assumes "pressure_io_ok E w" and "read_ret E (nread w) = Some bs"
    and "\<not> temperature_io_ok E (snd (read_pressure E fd Pressure w))"
  shows "rows (snd (loop_body E fd sc w)) =
           rows w @ [Printf row_fmt_temp_error
                       [ArgInt (sint (sc + 1)),
                        ArgFloat (Some (decode_pressure (bs ! 0) (bs ! 1) (bs ! 2))),
                        ArgStr ''Error'']]"
  using read_pressure_succeeds(1,2,4) [OF assms(1,2), of fd Pressure]
    read_temperature_fails(1,2,4) [OF assms(3), of fd Temperature]
  by (simp add: loop_body_def Let_def split_beta obs_simps)

lemma loop_body_complete:
  assumes "pressure_io_ok E w" and "read_ret E (nread w) = Some bs"
    and "temperature_io_ok E (snd (read_pressure E fd Pressure w))"
    and "read_ret E (nread (snd (read_pressure E fd Pressure w))) = Some bs'"
  shows "rows (snd (loop_body E fd sc w)) =
           rows w @ [Printf row_fmt_values
                       [ArgInt (sint (sc + 1)),
                        ArgFloat (Some (decode_pressure (bs ! 0) (bs ! 1) (bs ! 2))),
                        ArgFloat (Some (decode_temperature (bs' ! 0) (bs' ! 1)))]]"
  using read_pressure_succeeds(1,2,4) [OF assms(1,2), of fd Pressure]
    read_temperature_succeeds(1,2,4) [OF assms(3,4), of fd Temperature]
  by (simp add: loop_body_def Let_def split_beta obs_simps)

lemma read_pressure_obs:
  "rows (snd (read_pressure E fd p w)) = rows w"
  "closes (snd (read_pressure E fd p w)) = closes w"
  "attempts (snd (read_pressure E fd p w)) = attempts w @ [Write fd [0x48, 0xA3, 0x00]]"
proof -
  show "rows (snd (read_pressure E fd p w)) = rows w"
    by (cases E w rule: pressure_io_cases)
       (simp_all add: read_pressure_fails read_pressure_succeeds)
  show "closes (snd (read_pressure E fd p w)) = closes w"
    by (cases E w rule: pressure_io_cases)
       (simp_all add: read_pressure_fails read_pressure_succeeds)
  show "attempts (snd (read_pressure E fd p w)) = attempts w @ [Write fd [0x48, 0xA3, 0x00]]"
    by (cases E w rule: pressure_io_cases)
       (simp_all add: read_pressure_fails read_pressure_succeeds)
qed

lemma read_temperature_obs:
  "rows (snd (read_temperature E fd p w)) = rows w"
  "closes (snd (read_temperature E fd p w)) = closes w"
  "attempts (snd (read_temperature E fd p w)) = attempts w"
proof -
  show "rows (snd (read_temperature E fd p w)) = rows w"
    by (cases E w rule: temperature_io_cases)
       (simp_all add: read_temperature_fails read_temperature_succeeds)
  show "closes (snd (read_temperature E fd p w)) = closes w"
    by (cases E w rule: temperature_io_cases)
       (simp_all add: read_temperature_fails read_temperature_succeeds)
  show "attempts (snd (read_temperature E fd p w)) = attempts w"
    by (cases E w rule: temperature_io_cases)
       (simp_all add: read_temperature_fails read_temperature_succeeds)
qed

lemma loop_body_obs:
  "length (rows (snd (loop_body E fd sc w))) = Suc (length (rows w))"
  "closes (snd (loop_body E fd sc w)) = closes w"
  "length (attempts (snd (loop_body E fd sc w))) = Suc (length (attempts w))"
  by (simp_all add: loop_body_def Let_def split_beta obs_simps read_pressure_obs
        read_temperature_obs row_fmt_values_def row_fmt_temp_error_def row_fmt_error_def)

lemma main_loop_Suc:
  "main_loop (Suc n) E fd sc w =
     main_loop n E fd (fst (loop_body E fd sc w)) (snd (loop_body E fd sc w))"
  by (simp add: split_beta)

lemma main_loop_runs:
  "exit_status (main_loop n E fd sc w) = None"
  "length (rows (final_world (main_loop n E fd sc w))) = length (rows w) + n"
  "closes (final_world (main_loop n E fd sc w)) = closes w"
  "length (attempts (final_world (main_loop n E fd sc w))) = length (attempts w) + n"
proof -
  show "exit_status (main_loop n E fd sc w) = None"
    by (induction n arbitrary: sc w)
       (simp_all add: main_loop_Suc del: main_loop.simps(2))
  show "length (rows (final_world (main_loop n E fd sc w))) = length (rows w) + n"
    by (induction n arbitrary: sc w)
       (simp_all add: main_loop_Suc loop_body_obs del: main_loop.simps(2))
  show "closes (final_world (main_loop n E fd sc w)) = closes w"
    by (induction n arbitrary: sc w)
       (simp_all add: main_loop_Suc loop_body_obs del: main_loop.simps(2))
  show "length (attempts (final_world (main_loop n E fd sc w))) = length (attempts w) + n"
    by (induction n arbitrary: sc w)
       (simp_all add: main_loop_Suc loop_body_obs del: main_loop.simps(2))
qed

lemma init_i2c_fails_iff:
  "fst (init_i2c E device addr w) < 0 \<longleftrightarrow> open_ret E < 0 \<or> ioctl_ret E < 0"
  by (auto simp add: init_i2c_def sys_open_def sys_ioctl_def Let_def)

lemma init_i2c_ok:
  assumes "\<not> fst (init_i2c E device addr w) < 0"
  shows "init_i2c E device addr w =
           (open_ret E, emit (Ioctl (open_ret E) I2C_SLAVE addr) (emit (Open device O_RDWR) w))"
  using assms by (auto simp add: init_i2c_def sys_open_def sys_ioctl_def Let_def split: if_splits)

lemma init_i2c_rows: "rows (snd (init_i2c E device addr w)) = rows w"
  by (simp add: init_i2c_def sys_open_def sys_ioctl_def Let_def obs_simps)

lemma print_sensor_info_obs:
  "rows (print_sensor_info a w) = rows w" "closes (print_sensor_info a w) = closes w"
  "attempts (print_sensor_info a w) = attempts w"
  by (simp_all add: print_sensor_info_def Let_def obs_simps
        row_fmt_values_def row_fmt_temp_error_def row_fmt_error_def)

lemma obs_initial_world: "rows initial_world = []" "closes initial_world = []"
  "stores initial_world = []" "attempts initial_world = []"
  by (simp_all add: initial_world_def rows_def closes_def stores_def attempts_def)

lemma main_init_fails:
  assumes "fst (init_i2c E I2C_BUS a (print_sensor_info a initial_world)) < 0"
  shows "exit_status (main a E fuel) = Some EXIT_FAILURE"
    and "rows (final_world (main a E fuel)) = []"
  using assms
  by (simp_all add: main_def Let_def split_beta obs_simps init_i2c_rows print_sensor_info_obs
        obs_initial_world)

lemma main_init_ok:
  assumes "\<not> fst (init_i2c E I2C_BUS a (print_sensor_info a initial_world)) < 0"
  shows "exit_status (main a E fuel) = None"
    and "closes (final_world (main a E fuel)) = []"
    and "length (rows (final_world (main a E fuel))) = fuel"
    and "length (attempts (final_world (main a E fuel))) = fuel"
proof -
  define w0 where "w0 = print_sensor_info a initial_world"
  have eq: "init_i2c E I2C_BUS a w0 =
      (open_ret E, emit (Ioctl (open_ret E) I2C_SLAVE a) (emit (Open I2C_BUS O_RDWR) w0))"
    using assms unfolding w0_def by (rule init_i2c_ok)
  have fd: "\<not> open_ret E < 0"
    using assms by (simp add: init_i2c_fails_iff)
  have obs0: "rows w0 = []" "closes w0 = []" "attempts w0 = []"
    by (simp_all add: w0_def print_sensor_info_obs obs_initial_world)
  have m: "main a E fuel = main_loop fuel E (open_ret E) 0
      (emit (Printf ''-------|----------------|------------------\<newline>'' [])
        (emit (Printf (''Sample | Pressure (hPa) | Temperature (''
                                       @ [CHR 0xC2, CHR 0xB0] @ ''C)\<newline>'') [])
          (emit (Printf ''Press Ctrl+C to stop\<newline>\<newline>'' [])
            (emit (Printf ''Starting continuous measurement...\<newline>'' [])
              (emit (Ioctl (open_ret E) I2C_SLAVE a) (emit (Open I2C_BUS O_RDWR) w0))))))"
    using fd by (simp add: main_def Let_def w0_def [symmetric] eq)
  show "exit_status (main a E fuel) = None"
    by (simp only: m main_loop_runs)
  show "closes (final_world (main a E fuel)) = []"
    by (simp only: m main_loop_runs) (simp add: obs_simps obs0)
  show "length (rows (final_world (main a E fuel))) = fuel"
    by (simp only: m main_loop_runs)
       (simp add: obs_simps obs0 row_fmt_values_def row_fmt_temp_error_def row_fmt_error_def)
  show "length (attempts (final_world (main a E fuel))) = fuel"
    by (simp only: m main_loop_runs) (simp add: obs_simps obs0)
qed

lemma nth_of_take_eq:
  assumes "take n xs = take n ys" and "i < n"
  shows "xs ! i = ys ! i"
proof -
  have "take n xs ! i = take n ys ! i" using assms(1) by simp
  then show ?thesis using assms(2) by simp
qed

section \<open>The properties of the specification\<close>

text \<open>
  C1. For every three raw bytes the conversion step of \<open>read_pressure\<close> yields the bytes
  read as a big-endian 24-bit unsigned integer, divided by 100: the shifts and ors compute
  \<open>b0 * 65536 + b1 * 256 + b2\<close>, the conversion to \<open>float\<close> is exact, and the result is
  the binary32 quotient, that is the exact quotient rounded to the nearest \<open>float\<close>, at
  most \<open>1/128\<close> away from it. The step has no failing path: once the command write and the
  data read are complete, \<open>read_pressure\<close> returns 0 and has stored the decoded value.
\<close>

theorem pressure_decoder_correct:
  "decode_pressure b0 b1 b2
     = f32_round (of_nat (unat b0 * 65536 + unat b1 * 256 + unat b2) / 100)
   \<and> unat (raw_pressure b0 b1 b2) = unat b0 * 65536 + unat b1 * 256 + unat b2
   \<and> \<bar>decode_pressure b0 b1 b2 - of_nat (unat b0 * 65536 + unat b1 * 256 + unat b2) / 100\<bar>
       \<le> 1 / 128
   \<and> (pressure_io_ok E w \<and> read_ret E (nread w) = Some (b0 # b1 # b2 # rest)
        \<longrightarrow> fst (read_pressure E fd p w) = 0
          \<and> mem (snd (read_pressure E fd p w)) p = Some (decode_pressure b0 b1 b2))"
proof (intro conjI impI)
  show "decode_pressure b0 b1 b2
     = f32_round (of_nat (unat b0 * 65536 + unat b1 * 256 + unat b2) / 100)"
    by (simp only: decode_pressure_eq be24_def)
  show "unat (raw_pressure b0 b1 b2) = unat b0 * 65536 + unat b1 * 256 + unat b2"
    by (rule unat_raw_pressure)
  show "\<bar>decode_pressure b0 b1 b2 - of_nat (unat b0 * 65536 + unat b1 * 256 + unat b2) / 100\<bar>
       \<le> 1 / 128"
    using decode_pressure_error [of b0 b1 b2] by (simp only: be24_def)
next
  assume ok: "pressure_io_ok E w \<and> read_ret E (nread w) = Some (b0 # b1 # b2 # rest)"
  then show "fst (read_pressure E fd p w) = 0"
    by (simp add: read_pressure_succeeds(1))
  from ok have "mem (snd (read_pressure E fd p w)) =
      (mem w)(p := Some (decode_pressure ((b0 # b1 # b2 # rest) ! 0)
         ((b0 # b1 # b2 # rest) ! 1) ((b0 # b1 # b2 # rest) ! 2)))"
    by (intro read_pressure_succeeds(2)) simp_all
  then show "mem (snd (read_pressure E fd p w)) p = Some (decode_pressure b0 b1 b2)"
    by simp
qed

theorem pressure_decoder_correct_witness:
  "pressure_io_ok (bus_ok [0xFF, 0xFF, 0xFF, 1, 2, 3, 4, 5, 6]) initial_world
   \<and> fst (read_pressure (bus_ok [0xFF, 0xFF, 0xFF, 1, 2, 3, 4, 5, 6]) 3 Pressure initial_world) = 0
   \<and> mem (snd (read_pressure (bus_ok [0xFF, 0xFF, 0xFF, 1, 2, 3, 4, 5, 6]) 3 Pressure
                 initial_world)) Pressure = Some 167772.15625"
  using pressure_decoder_correct [of "0xFF" "0xFF" "0xFF"
      "bus_ok [0xFF, 0xFF, 0xFF, 1, 2, 3, 4, 5, 6]" initial_world "[1, 2, 3, 4, 5, 6]" 3 Pressure]
  by (simp add: pressure_io_ok_def bus_ok_def initial_world_def f32_round_values f32_round_0)

text \<open>
  C2. For every two raw bytes the conversion step of \<open>read_temperature\<close> yields the bytes
  read as a big-endian 16-bit unsigned integer, divided by 100, minus 40, both operations in
  binary32 (each rounds to the nearest \<open>float\<close>); the result is at most \<open>1/16384\<close> away
  from the exact value. Once the command write and the data read are complete,
  \<open>read_temperature\<close> returns 0 and has stored the decoded value.
\<close>

theorem temperature_decoder_correct:
  "decode_temperature b0 b1
     = f32_round (f32_round (of_nat (unat b0 * 256 + unat b1) / 100) - 40)
   \<and> unat (raw_temp b0 b1) = unat b0 * 256 + unat b1
   \<and> \<bar>decode_temperature b0 b1 - (of_nat (unat b0 * 256 + unat b1) / 100 - 40)\<bar>
       \<le> 1 / 16384
   \<and> (temperature_io_ok E w \<and> read_ret E (nread w) = Some (b0 # b1 # rest)
        \<longrightarrow> fst (read_temperature E fd p w) = 0
          \<and> mem (snd (read_temperature E fd p w)) p = Some (decode_temperature b0 b1))"
proof (intro conjI impI)
  show "decode_temperature b0 b1
     = f32_round (f32_round (of_nat (unat b0 * 256 + unat b1) / 100) - 40)"
    by (simp only: decode_temperature_eq be16_def)
  show "unat (raw_temp b0 b1) = unat b0 * 256 + unat b1"
    by (rule unat_raw_temp)
  show "\<bar>decode_temperature b0 b1 - (of_nat (unat b0 * 256 + unat b1) / 100 - 40)\<bar>
       \<le> 1 / 16384"
    using decode_temperature_error [of b0 b1] by (simp only: be16_def)
next
  assume ok: "temperature_io_ok E w \<and> read_ret E (nread w) = Some (b0 # b1 # rest)"
  then show "fst (read_temperature E fd p w) = 0"
    by (simp add: read_temperature_succeeds(1))
  from ok have "mem (snd (read_temperature E fd p w)) =
      (mem w)(p := Some (decode_temperature ((b0 # b1 # rest) ! 0) ((b0 # b1 # rest) ! 1)))"
    by (intro read_temperature_succeeds(2)) simp_all
  then show "mem (snd (read_temperature E fd p w)) p = Some (decode_temperature b0 b1)"
    by simp
qed

theorem temperature_decoder_correct_witness:
  "temperature_io_ok (bus_ok [0x27, 0x10, 9, 9, 9, 9]) initial_world
   \<and> fst (read_temperature (bus_ok [0x27, 0x10, 9, 9, 9, 9]) 3 Temperature initial_world) = 0
   \<and> mem (snd (read_temperature (bus_ok [0x27, 0x10, 9, 9, 9, 9]) 3 Temperature
                 initial_world)) Temperature = Some 60"
  using temperature_decoder_correct [of "0x27" "0x10"
      "bus_ok [0x27, 0x10, 9, 9, 9, 9]" initial_world "[9, 9, 9, 9]" 3 Temperature]
  by (simp add: temperature_io_ok_def bus_ok_def initial_world_def f32_round_values f32_round_0)

text \<open>
  C3. A failure inside one sample does not leave the loop. When the pressure transfer is
  short (command write or data read), the row of that sample shows the text \<open>Error\<close> in
  the pressure column (and in the temperature column, which is then not measured); when the
  pressure transfer is complete and the temperature transfer is short, the row shows the
  pressure and the text \<open>Error\<close> in the temperature column. Whatever the bus answers, \<open>n\<close>
  passes of the loop leave the process running, print exactly \<open>n\<close> rows and send the
  pressure command \<open>n\<close> times: the next sample is always attempted.
\<close>

theorem sample_failure_reported_and_loop_continues:
  "(\<not> pressure_io_ok E w \<longrightarrow>
      rows (snd (loop_body E fd sc w)) =
        rows w @ [Printf row_fmt_error
                    [ArgInt (sint (sc + 1)), ArgStr ''Error'', ArgStr ''Error'']])
   \<and> (pressure_io_ok E w \<and> \<not> temperature_io_ok E (snd (read_pressure E fd Pressure w)) \<longrightarrow>
      rows (snd (loop_body E fd sc w)) =
        rows w @ [Printf row_fmt_temp_error
                    [ArgInt (sint (sc + 1)),
                     ArgFloat (mem (snd (read_pressure E fd Pressure w)) Pressure),
                     ArgStr ''Error'']])
   \<and> exit_status (main_loop n E fd sc w) = None
   \<and> length (rows (final_world (main_loop n E fd sc w))) = length (rows w) + n
   \<and> length (attempts (final_world (main_loop n E fd sc w))) = length (attempts w) + n"
proof (intro conjI impI)
  assume "\<not> pressure_io_ok E w"
  then show "rows (snd (loop_body E fd sc w)) =
        rows w @ [Printf row_fmt_error
                    [ArgInt (sint (sc + 1)), ArgStr ''Error'', ArgStr ''Error'']]"
    by (rule loop_body_pressure_fails)
next
  assume a: "pressure_io_ok E w \<and> \<not> temperature_io_ok E (snd (read_pressure E fd Pressure w))"
  then obtain bs where bs: "read_ret E (nread w) = Some bs"
    by (auto simp add: pressure_io_ok_def split: option.splits)
  have "mem (snd (read_pressure E fd Pressure w)) Pressure
      = Some (decode_pressure (bs ! 0) (bs ! 1) (bs ! 2))"
    using a bs by (simp add: read_pressure_succeeds(2))
  then show "rows (snd (loop_body E fd sc w)) =
        rows w @ [Printf row_fmt_temp_error
                    [ArgInt (sint (sc + 1)),
                     ArgFloat (mem (snd (read_pressure E fd Pressure w)) Pressure),
                     ArgStr ''Error'']]"
    using a bs by (simp add: loop_body_temperature_fails)
qed (simp_all only: main_loop_runs)

theorem sample_failure_reported_and_loop_continues_witness:
  "\<not> pressure_io_ok bus_read_fails initial_world
   \<and> rows (snd (loop_body bus_read_fails 3 0 initial_world)) =
       [Printf row_fmt_error [ArgInt 1, ArgStr ''Error'', ArgStr ''Error'']]
   \<and> pressure_io_ok (bus_temp_fails [0, 0, 100, 0, 0, 0, 0, 0, 0]) initial_world
   \<and> \<not> temperature_io_ok (bus_temp_fails [0, 0, 100, 0, 0, 0, 0, 0, 0])
          (snd (read_pressure (bus_temp_fails [0, 0, 100, 0, 0, 0, 0, 0, 0]) 3 Pressure
             initial_world))
   \<and> rows (snd (loop_body (bus_temp_fails [0, 0, 100, 0, 0, 0, 0, 0, 0]) 3 0 initial_world)) =
       [Printf row_fmt_temp_error [ArgInt 1, ArgFloat (Some 1), ArgStr ''Error'']]
   \<and> exit_status (main_loop 2 bus_read_fails 3 0 initial_world) = None
   \<and> length (rows (final_world (main_loop 2 bus_read_fails 3 0 initial_world))) = 2
   \<and> length (attempts (final_world (main_loop 2 bus_read_fails 3 0 initial_world))) = 2"
proof -
  have ok: "pressure_io_ok (bus_temp_fails [0, 0, 100, 0, 0, 0, 0, 0, 0]) initial_world"
    by (simp add: pressure_io_ok_def bus_temp_fails_def initial_world_def)
  have rd: "read_ret (bus_temp_fails [0, 0, 100, 0, 0, 0, 0, 0, 0]) (nread initial_world)
      = Some [0, 0, 100, 0, 0, 0, 0, 0, 0]"
    by (simp add: bus_temp_fails_def initial_world_def)
  have m: "mem (snd (read_pressure (bus_temp_fails [0, 0, 100, 0, 0, 0, 0, 0, 0]) 3 Pressure
             initial_world)) Pressure = Some 1"
    by (simp add: read_pressure_succeeds(2) [OF ok rd] decode_pressure_eq be24_def
          f32_round_values)
  have t: "\<not> temperature_io_ok (bus_temp_fails [0, 0, 100, 0, 0, 0, 0, 0, 0])
          (snd (read_pressure (bus_temp_fails [0, 0, 100, 0, 0, 0, 0, 0, 0]) 3 Pressure
             initial_world))"
    by (simp add: temperature_io_ok_def bus_temp_fails_def initial_world_def
          read_pressure_def sys_write_def sys_read_def emit_def store_def Let_def)
  show ?thesis
    using sample_failure_reported_and_loop_continues [of bus_read_fails initial_world 3 0 2]
      sample_failure_reported_and_loop_continues
        [of "bus_temp_fails [0, 0, 100, 0, 0, 0, 0, 0, 0]" initial_world 3 0 0]
      ok m t
    by (simp add: pressure_io_ok_def bus_read_fails_def initial_world_def rows_def attempts_def)
qed

text \<open>
  C4. When \<open>init_i2c\<close> returns a negative value, \<open>main\<close> exits with \<open>EXIT_FAILURE\<close>,
  which is not zero, and its output contains no table row.
\<close>

theorem init_failure_exits_without_rows:
  "fst (init_i2c E I2C_BUS a (print_sensor_info a initial_world)) < 0 \<Longrightarrow>
     exit_status (main a E fuel) = Some EXIT_FAILURE
     \<and> EXIT_FAILURE \<noteq> 0
     \<and> rows (final_world (main a E fuel)) = []"
  by (simp add: main_init_fails EXIT_FAILURE_def)

theorem init_failure_exits_without_rows_witness:
  "fst (init_i2c bus_absent I2C_BUS 0x63 (print_sensor_info 0x63 initial_world)) < 0
   \<and> exit_status (main 0x63 bus_absent 5) = Some 1
   \<and> rows (final_world (main 0x63 bus_absent 5)) = []"
  using init_failure_exits_without_rows [of bus_absent "0x63" 5]
  by (simp add: init_i2c_fails_iff bus_absent_def EXIT_FAILURE_def)

text \<open>
  C5, as stated: on the bytes \<open>[0,0,0]\<close> the pressure is exactly 0.0 and on
  \<open>[0xFF,0xFF,0xFF]\<close> it is exactly 167772.15. The second half fails: 167772.15 is not a
  binary32 value.
\<close>

theorem pressure_boundary_counterexample:
  "\<not> (decode_pressure 0 0 0 = 0 \<and> decode_pressure 0xFF 0xFF 0xFF = 167772.15)"
  by (simp add: decode_pressure_eq be24_def f32_round_values f32_round_0)

text \<open>
  C5, amended: on the bytes \<open>[0,0,0]\<close> the pressure is exactly 0.0; on
  \<open>[0xFF,0xFF,0xFF]\<close> it is 167772.15625, the binary32 value nearest to 167772.15.
\<close>

theorem pressure_boundary_values:
  "decode_pressure 0 0 0 = 0
   \<and> decode_pressure 0xFF 0xFF 0xFF = 167772.15625
   \<and> decode_pressure 0xFF 0xFF 0xFF = f32_round 167772.15"
  by (simp add: decode_pressure_eq be24_def f32_round_values f32_round_0)

text \<open>
  C6. On the bytes \<open>[0,0]\<close> the temperature is exactly -40.0, and on \<open>[0x27,0x10]\<close>
  (raw value 10000) it is exactly 60.0: both quotients and both differences are binary32
  values, so no rounding takes place.
\<close>

theorem temperature_boundary_values:
  "decode_temperature 0 0 = - 40 \<and> decode_temperature 0x27 0x10 = 60"
  by (simp add: decode_temperature_eq be16_def f32_round_values f32_round_0)

text \<open>
  C7. The decoded value depends on the raw bytes alone. Two complete pressure reads, in any
  two worlds (whatever the store, the counters and the trace hold), under any two
  environments, through any descriptor and into any variable, store the same value when the
  first three bytes delivered agree; likewise two temperature reads when the first two
  bytes agree.
\<close>

theorem decoding_is_stateless:
  "(pressure_io_ok E w \<and> pressure_io_ok E' w'
      \<and> read_ret E (nread w) = Some bs \<and> read_ret E' (nread w') = Some bs'
      \<and> take 3 bs = take 3 bs'
     \<longrightarrow> mem (snd (read_pressure E fd p w)) p = mem (snd (read_pressure E' fd' p' w')) p')
   \<and> (temperature_io_ok E w \<and> temperature_io_ok E' w'
      \<and> read_ret E (nread w) = Some bs \<and> read_ret E' (nread w') = Some bs'
      \<and> take 2 bs = take 2 bs'
     \<longrightarrow> mem (snd (read_temperature E fd p w)) p
          = mem (snd (read_temperature E' fd' p' w')) p')"
proof (intro conjI impI)
  assume a: "pressure_io_ok E w \<and> pressure_io_ok E' w'
      \<and> read_ret E (nread w) = Some bs \<and> read_ret E' (nread w') = Some bs'
      \<and> take 3 bs = take 3 bs'"
  then have "bs ! 0 = bs' ! 0" "bs ! 1 = bs' ! 1" "bs ! 2 = bs' ! 2"
    by (simp_all add: nth_of_take_eq [of 3 bs bs'])
  then show "mem (snd (read_pressure E fd p w)) p = mem (snd (read_pressure E' fd' p' w')) p'"
    using a by (simp add: read_pressure_succeeds(2))
next
  assume a: "temperature_io_ok E w \<and> temperature_io_ok E' w'
      \<and> read_ret E (nread w) = Some bs \<and> read_ret E' (nread w') = Some bs'
      \<and> take 2 bs = take 2 bs'"
  then have "bs ! 0 = bs' ! 0" "bs ! 1 = bs' ! 1"
    by (simp_all add: nth_of_take_eq [of 2 bs bs'])
  then show "mem (snd (read_temperature E fd p w)) p
      = mem (snd (read_temperature E' fd' p' w')) p'"
    using a by (simp add: read_temperature_succeeds(2))
qed

theorem decoding_is_stateless_witness:
  "pressure_io_ok (bus_ok [1, 2, 3, 4, 5, 6, 7, 8, 9]) initial_world
   \<and> pressure_io_ok (bus_ok [1, 2, 3, 0, 0, 0, 0, 0, 0]) used_world
   \<and> mem (snd (read_pressure (bus_ok [1, 2, 3, 4, 5, 6, 7, 8, 9]) 3 Pressure initial_world))
         Pressure
     = mem (snd (read_pressure (bus_ok [1, 2, 3, 0, 0, 0, 0, 0, 0]) 4 Temperature used_world))
         Temperature
   \<and> temperature_io_ok (bus_ok [1, 2, 3, 4, 5, 6, 7, 8, 9]) initial_world
   \<and> temperature_io_ok (bus_ok [1, 2, 0, 0, 0, 0]) used_world
   \<and> mem (snd (read_temperature (bus_ok [1, 2, 3, 4, 5, 6, 7, 8, 9]) 3 Pressure
                 initial_world)) Pressure
     = mem (snd (read_temperature (bus_ok [1, 2, 0, 0, 0, 0]) 4 Temperature used_world))
         Temperature"
  using decoding_is_stateless [of "bus_ok [1, 2, 3, 4, 5, 6, 7, 8, 9]" initial_world
      "bus_ok [1, 2, 3, 0, 0, 0, 0, 0, 0]" used_world "[1, 2, 3, 4, 5, 6, 7, 8, 9]"
      "[1, 2, 3, 0, 0, 0, 0, 0, 0]" 3 Pressure 4 Temperature]
    decoding_is_stateless [of "bus_ok [1, 2, 3, 4, 5, 6, 7, 8, 9]" initial_world
      "bus_ok [1, 2, 0, 0, 0, 0]" used_world "[1, 2, 3, 4, 5, 6, 7, 8, 9]"
      "[1, 2, 0, 0, 0, 0]" 3 Pressure 4 Temperature]
  by (simp add: pressure_io_ok_def temperature_io_ok_def bus_ok_def initial_world_def
        used_world_def)

text \<open>
  C8. The temperature depends on the first two of the six bytes read only: two
  environments whose six-byte blocks agree on bytes 0 and 1 give the same result of
  \<open>read_temperature\<close>, return value and world, whatever bytes 2 to 5 are.
\<close>

theorem temperature_uses_first_two_bytes:
  "write_ret E (nwrite w) = 3 \<and> write_ret E' (nwrite w) = 3
   \<and> read_ret E (nread w) = Some bs \<and> read_ret E' (nread w) = Some bs'
   \<and> length bs = 6 \<and> length bs' = 6 \<and> bs ! 0 = bs' ! 0 \<and> bs ! 1 = bs' ! 1
   \<longrightarrow> read_temperature E fd p w = read_temperature E' fd p w
     \<and> fst (read_temperature E fd p w) = 0
     \<and> mem (snd (read_temperature E fd p w)) p = Some (decode_temperature (bs ! 0) (bs ! 1))"
  by (simp add: read_temperature_complete store_def emit_def)

theorem temperature_uses_first_two_bytes_witness:
  "read_temperature (bus_ok [0x27, 0x10, 1, 2, 3, 4]) 3 Temperature initial_world
     = read_temperature (bus_ok [0x27, 0x10, 0xFF, 0xFE, 0xFD, 0xFC]) 3 Temperature initial_world
   \<and> mem (snd (read_temperature (bus_ok [0x27, 0x10, 1, 2, 3, 4]) 3 Temperature initial_world))
        Temperature = Some 60"
proof -
  have v: "decode_temperature 0x27 0x10 = 60"
    by (simp add: decode_temperature_eq be16_def f32_round_values)
  have "read_temperature (bus_ok [0x27, 0x10, 1, 2, 3, 4]) 3 Temperature initial_world
       = read_temperature (bus_ok [0x27, 0x10, 0xFF, 0xFE, 0xFD, 0xFC]) 3 Temperature
           initial_world
     \<and> fst (read_temperature (bus_ok [0x27, 0x10, 1, 2, 3, 4]) 3 Temperature initial_world) = 0
     \<and> mem (snd (read_temperature (bus_ok [0x27, 0x10, 1, 2, 3, 4]) 3 Temperature
                   initial_world)) Temperature
         = Some (decode_temperature ([0x27, 0x10, 1, 2, 3, 4] ! 0) ([0x27, 0x10, 1, 2, 3, 4] ! 1))"
    by (rule mp [OF temperature_uses_first_two_bytes
          [of "bus_ok [0x27, 0x10, 1, 2, 3, 4]" initial_world
            "bus_ok [0x27, 0x10, 0xFF, 0xFE, 0xFD, 0xFC]" "[0x27, 0x10, 1, 2, 3, 4]"
            "[0x27, 0x10, 0xFF, 0xFE, 0xFD, 0xFC]" 3 Temperature]])
       (simp add: bus_ok_def initial_world_def)
  then have same: "read_temperature (bus_ok [0x27, 0x10, 1, 2, 3, 4]) 3 Temperature initial_world
       = read_temperature (bus_ok [0x27, 0x10, 0xFF, 0xFE, 0xFD, 0xFC]) 3 Temperature
           initial_world"
    and val: "mem (snd (read_temperature (bus_ok [0x27, 0x10, 1, 2, 3, 4]) 3 Temperature
                   initial_world)) Temperature
         = Some (decode_temperature ([0x27, 0x10, 1, 2, 3, 4] ! 0) ([0x27, 0x10, 1, 2, 3, 4] ! 1))"
    by blast+
  from val have "mem (snd (read_temperature (bus_ok [0x27, 0x10, 1, 2, 3, 4]) 3 Temperature
                   initial_world)) Temperature = Some 60"
    by (simp add: v)
  with same show ?thesis ..
qed

text \<open>
  C9. After a successful initialisation the process is still in the measurement loop
  after any number of passes: it has no exit status, and no \<open>close\<close> has been executed.
  \<open>main\<close> exits only when the initialisation fails, and then with \<open>EXIT_FAILURE\<close>; it
  never exits with \<open>EXIT_SUCCESS\<close>.
\<close>

theorem measurement_loop_never_exits:
  "exit_status (main a E fuel)
     = (if fst (init_i2c E I2C_BUS a (print_sensor_info a initial_world)) < 0
        then Some EXIT_FAILURE else None)
   \<and> exit_status (main a E fuel) \<noteq> Some EXIT_SUCCESS
   \<and> (\<not> fst (init_i2c E I2C_BUS a (print_sensor_info a initial_world)) < 0 \<longrightarrow>
        closes (final_world (main a E fuel)) = []
        \<and> length (rows (final_world (main a E fuel))) = fuel)"
proof (cases "fst (init_i2c E I2C_BUS a (print_sensor_info a initial_world)) < 0")
  case True
  then show ?thesis
    by (simp add: main_init_fails(1) EXIT_FAILURE_def EXIT_SUCCESS_def)
next
  case False
  then show ?thesis
    by (simp add: main_init_ok)
qed

theorem measurement_loop_never_exits_witness:
  "\<not> fst (init_i2c (bus_ok [1, 2, 3, 4, 5, 6, 7, 8, 9]) I2C_BUS 0x63
            (print_sensor_info 0x63 initial_world)) < 0
   \<and> exit_status (main 0x63 (bus_ok [1, 2, 3, 4, 5, 6, 7, 8, 9]) 1000) = None
   \<and> closes (final_world (main 0x63 (bus_ok [1, 2, 3, 4, 5, 6, 7, 8, 9]) 1000)) = []
   \<and> length (rows (final_world (main 0x63 (bus_ok [1, 2, 3, 4, 5, 6, 7, 8, 9]) 1000))) = 1000
   \<and> exit_status (main 0x63 bus_absent 1000) = Some EXIT_FAILURE"
proof -
  have ok: "\<not> fst (init_i2c (bus_ok [1, 2, 3, 4, 5, 6, 7, 8, 9]) I2C_BUS 0x63
            (print_sensor_info 0x63 initial_world)) < 0"
    by (simp add: init_i2c_fails_iff bus_ok_def)
  have absent: "fst (init_i2c bus_absent I2C_BUS 0x63 (print_sensor_info 0x63 initial_world)) < 0"
    by (simp add: init_i2c_fails_iff bus_absent_def)
  show ?thesis
    using measurement_loop_never_exits [of "0x63" "bus_ok [1, 2, 3, 4, 5, 6, 7, 8, 9]" 1000]
      measurement_loop_never_exits [of "0x63" bus_absent 1000]
    by (simp only: ok absent if_True if_False not_False_eq_True simp_thms)
qed

text \<open>
  C10. When a transfer is short, \<open>read_pressure\<close> and \<open>read_temperature\<close> return \<open>-1\<close>,
  leave the store as it was and perform no assignment; when both transfers are complete they
  return 0 and perform exactly one assignment, to the variable they were given.
\<close>

theorem readers_write_only_on_success:
  "(if pressure_io_ok E w
    then fst (read_pressure E fd p w) = 0
       \<and> (\<exists>v. mem (snd (read_pressure E fd p w)) = (mem w)(p := Some v)
              \<and> stores (snd (read_pressure E fd p w)) = stores w @ [Store p v])
    else fst (read_pressure E fd p w) = - 1
       \<and> mem (snd (read_pressure E fd p w)) = mem w
       \<and> stores (snd (read_pressure E fd p w)) = stores w)
   \<and> (if temperature_io_ok E w
    then fst (read_temperature E fd p w) = 0
       \<and> (\<exists>v. mem (snd (read_temperature E fd p w)) = (mem w)(p := Some v)
              \<and> stores (snd (read_temperature E fd p w)) = stores w @ [Store p v])
    else fst (read_temperature E fd p w) = - 1
       \<and> mem (snd (read_temperature E fd p w)) = mem w
       \<and> stores (snd (read_temperature E fd p w)) = stores w)"
proof -
  have P: "fst (read_pressure E fd p w) = 0
       \<and> (\<exists>v. mem (snd (read_pressure E fd p w)) = (mem w)(p := Some v)
              \<and> stores (snd (read_pressure E fd p w)) = stores w @ [Store p v])"
    if "pressure_io_ok E w"
  proof -
    from that obtain bs where "read_ret E (nread w) = Some bs"
      by (auto simp add: pressure_io_ok_def split: option.splits)
    with that show ?thesis by (simp add: read_pressure_succeeds)
  qed
  have T: "fst (read_temperature E fd p w) = 0
       \<and> (\<exists>v. mem (snd (read_temperature E fd p w)) = (mem w)(p := Some v)
              \<and> stores (snd (read_temperature E fd p w)) = stores w @ [Store p v])"
    if "temperature_io_ok E w"
  proof -
    from that obtain bs where "read_ret E (nread w) = Some bs"
      by (auto simp add: temperature_io_ok_def split: option.splits)
    with that show ?thesis by (simp add: read_temperature_succeeds)
  qed
  show ?thesis
    using P T by (simp add: read_pressure_fails read_temperature_fails)
qed

theorem readers_write_only_on_success_witness:
  "\<not> pressure_io_ok bus_write_fails used_world
   \<and> fst (read_pressure bus_write_fails 3 Pressure used_world) = - 1
   \<and> mem (snd (read_pressure bus_write_fails 3 Pressure used_world)) Pressure = Some 1013
   \<and> stores (snd (read_pressure bus_write_fails 3 Pressure used_world)) = []
   \<and> \<not> temperature_io_ok bus_read_fails used_world
   \<and> fst (read_temperature bus_read_fails 3 Temperature used_world) = - 1
   \<and> mem (snd (read_temperature bus_read_fails 3 Temperature used_world)) Temperature = Some 21
   \<and> pressure_io_ok (bus_ok [1, 2, 3, 4, 5, 6, 7, 8, 9]) used_world
   \<and> fst (read_pressure (bus_ok [1, 2, 3, 4, 5, 6, 7, 8, 9]) 3 Pressure used_world) = 0
   \<and> length (stores (snd (read_pressure (bus_ok [1, 2, 3, 4, 5, 6, 7, 8, 9]) 3 Pressure
                             used_world))) = 1"
  using readers_write_only_on_success [of bus_write_fails used_world 3 Pressure]
    readers_write_only_on_success [of bus_read_fails used_world 3 Temperature]
    readers_write_only_on_success [of "bus_ok [1, 2, 3, 4, 5, 6, 7, 8, 9]" used_world 3 Pressure]
  by (auto simp add: pressure_io_ok_def temperature_io_ok_def bus_write_fails_def
        bus_read_fails_def bus_ok_def used_world_def stores_def)

end
